theory Spec2Isabelle
  imports Complex_Main "HOL-Library.Monad_Syntax"
begin

section \<open>Arrays\<close>

text \<open>
  The program computes with numpy arrays of floats. Floats are modelled by the reals: a
  one-dimensional array is a list, a two-dimensional array is the list of its rows, so
  \<open>M ! j ! i\<close> is \<open>M[j, i]\<close> and column \<open>i\<close> holds ensemble member \<open>i\<close>.
  Every operation that can fail returns an option: \<open>None\<close> stands for "no real-valued
  result", that is, Python raises (IndexError, ValueError, TypeError) or numpy produces
  \<open>inf\<close>/\<open>nan\<close> (a division by zero, the mean of an empty array).
\<close>

type_synonym vec = "real list"
type_synonym mat = "real list list"

text \<open>\<open>np.zeros(n)\<close> for an integer \<open>n\<close>: a negative size raises.\<close>

definition zeros :: "int \<Rightarrow> vec option" where
  "zeros n = (if n < 0 then None else Some (replicate (nat n) 0))"

text \<open>\<open>np.zeros(shape)\<close> for the shape of an existing array.\<close>

definition zeros_vec :: "nat \<Rightarrow> vec" where
  "zeros_vec n = replicate n 0"

definition zeros_mat :: "mat \<Rightarrow> mat" where
  "zeros_mat C = map (\<lambda>r. replicate (length r) 0) C"

text \<open>\<open>np.arange(n)\<close>: empty for \<open>n \<le> 0\<close>.\<close>

definition arange :: "int \<Rightarrow> nat list" where
  "arange n = [0 ..< nat n]"

text \<open>Read one element, \<open>xs[i]\<close> with \<open>i \<ge> 0\<close>: IndexError beyond the end.\<close>

definition getitem :: "'a list \<Rightarrow> nat \<Rightarrow> 'a option" where
  "getitem xs i = (if i < length xs then Some (xs ! i) else None)"

text \<open>
  The number of columns of a two-dimensional array (the length of its rows; an array
  without rows is read as having no columns).
\<close>

definition ncols :: "mat \<Rightarrow> nat" where
  "ncols M = (case M of [] \<Rightarrow> 0 | r # _ \<Rightarrow> length r)"

text \<open>Column \<open>M[:, k]\<close>: IndexError when \<open>k\<close> is not a column.\<close>

definition col :: "mat \<Rightarrow> nat \<Rightarrow> vec option" where
  "col M k = (if \<forall>r \<in> set M. k < length r then Some (map (\<lambda>r. r ! k) M) else None)"

text \<open>
  A Python slice bound against a sequence of length \<open>n\<close>: a negative bound counts from
  the end, and bounds beyond either end are clamped.
\<close>

definition slice_bound :: "nat \<Rightarrow> int \<Rightarrow> nat" where
  "slice_bound n k = (if k < 0 then nat (max 0 (int n + k)) else min (nat k) n)"

text \<open>\<open>xs[a:b]\<close>, \<open>xs[:b]\<close> and \<open>xs[a:]\<close>.\<close>

definition slice :: "'a list \<Rightarrow> int \<Rightarrow> int \<Rightarrow> 'a list" where
  "slice xs a b =
     (let a' = slice_bound (length xs) a; b' = slice_bound (length xs) b
      in take (b' - a') (drop a' xs))"

definition slice_to :: "'a list \<Rightarrow> int \<Rightarrow> 'a list" where
  "slice_to xs b = take (slice_bound (length xs) b) xs"

definition slice_from :: "'a list \<Rightarrow> int \<Rightarrow> 'a list" where
  "slice_from xs a = drop (slice_bound (length xs) a) xs"

text \<open>Column slice \<open>M[:, a:b]\<close>.\<close>

definition col_slice :: "mat \<Rightarrow> int \<Rightarrow> int \<Rightarrow> mat" where
  "col_slice M a b = map (\<lambda>r. slice r a b) M"

text \<open>
  Broadcasting a one-dimensional array to length \<open>n\<close>: it has that length already, or
  it has one element, which is repeated; anything else raises ValueError.
\<close>

definition broadcast_to :: "nat \<Rightarrow> 'a list \<Rightarrow> 'a list option" where
  "broadcast_to n xs =
     (if length xs = n then Some xs
      else if length xs = 1 then Some (replicate n (hd xs))
      else None)"

text \<open>
  Slice assignment on an array (whose size is fixed): \<open>xs[:b] = ys\<close> and
  \<open>xs[a:] = ys\<close>, the right-hand side broadcast to the slice.
\<close>

definition assign_to :: "'a list \<Rightarrow> int \<Rightarrow> 'a list \<Rightarrow> 'a list option" where
  "assign_to xs b ys =
     (let b' = slice_bound (length xs) b
      in map_option (\<lambda>zs. zs @ drop b' xs) (broadcast_to b' ys))"

definition assign_from :: "'a list \<Rightarrow> int \<Rightarrow> 'a list \<Rightarrow> 'a list option" where
  "assign_from xs a ys =
     (let a' = slice_bound (length xs) a
      in map_option (\<lambda>zs. take a' xs @ zs) (broadcast_to (length xs - a') ys))"

text \<open>Run a fallible function over a list, failing at the first failure.\<close>

fun those_map :: "('a \<Rightarrow> 'b option) \<Rightarrow> 'a list \<Rightarrow> 'b list option" where
  "those_map f [] = Some []"
| "those_map f (x # xs) =
     (case f x of None \<Rightarrow> None
      | Some y \<Rightarrow> (case those_map f xs of None \<Rightarrow> None | Some ys \<Rightarrow> Some (y # ys)))"

text \<open>
  The same on the columns of a matrix, \<open>M[:, :b] = N\<close> and \<open>M[:, a:] = N\<close>: both have
  the same rows, or the assignment raises.
\<close>

definition assign_cols_to :: "mat \<Rightarrow> int \<Rightarrow> mat \<Rightarrow> mat option" where
  "assign_cols_to M b N =
     (if length M = length N then those_map (\<lambda>(r, s). assign_to r b s) (zip M N) else None)"

definition assign_cols_from :: "mat \<Rightarrow> int \<Rightarrow> mat \<Rightarrow> mat option" where
  "assign_cols_from M a N =
     (if length M = length N then those_map (\<lambda>(r, s). assign_from r a s) (zip M N) else None)"

text \<open>Indexing with an index array, \<open>xs[idx]\<close> and \<open>M[:, idx]\<close>.\<close>

definition gather :: "'a list \<Rightarrow> nat list \<Rightarrow> 'a list option" where
  "gather xs idx = those_map (getitem xs) idx"

definition gather_cols :: "mat \<Rightarrow> nat list \<Rightarrow> mat option" where
  "gather_cols M idx = those_map (\<lambda>r. gather r idx) M"

text \<open>Elementwise arithmetic on arrays of one shape.\<close>

definition vadd :: "vec \<Rightarrow> vec \<Rightarrow> vec" where
  "vadd u v = map2 (+) u v"

definition smult :: "real \<Rightarrow> vec \<Rightarrow> vec" where
  "smult c v = map (\<lambda>x. c * x) v"

definition mscale :: "real \<Rightarrow> mat \<Rightarrow> mat" where
  "mscale c A = map (smult c) A"

text \<open>
  A binary operation with numpy's broadcasting. In one dimension the lengths are equal or
  one side has length one; in two dimensions the same holds for the rows and, row by
  row, for the columns. Anything else raises ValueError.
\<close>

definition np_bin1 :: "(real \<Rightarrow> real \<Rightarrow> real) \<Rightarrow> vec \<Rightarrow> vec \<Rightarrow> vec option" where
  "np_bin1 f u v =
     (if length u = length v then Some (map2 f u v)
      else if length v = 1 then Some (map (\<lambda>x. f x (hd v)) u)
      else if length u = 1 then Some (map (\<lambda>y. f (hd u) y) v)
      else None)"

definition np_bin2 :: "(real \<Rightarrow> real \<Rightarrow> real) \<Rightarrow> mat \<Rightarrow> mat \<Rightarrow> mat option" where
  "np_bin2 f A B =
     (if length A = length B then those_map (\<lambda>(r, s). np_bin1 f r s) (zip A B)
      else if length B = 1 then those_map (\<lambda>r. np_bin1 f r (hd B)) A
      else if length A = 1 then those_map (\<lambda>s. np_bin1 f (hd A) s) B
      else None)"

definition np_sub :: "vec \<Rightarrow> vec \<Rightarrow> vec option" where
  "np_sub u v = np_bin1 (-) u v"

text \<open>
  In-place addition \<open>acc += v\<close>: the right-hand side is broadcast to the shape of
  \<open>acc\<close>, which does not change.
\<close>

definition iadd :: "vec \<Rightarrow> vec \<Rightarrow> vec option" where
  "iadd acc v = map_option (vadd acc) (broadcast_to (length acc) v)"

definition iadd_mat :: "mat \<Rightarrow> mat \<Rightarrow> mat option" where
  "iadd_mat acc A =
     (case broadcast_to (length acc) A of None \<Rightarrow> None
      | Some A' \<Rightarrow> those_map (\<lambda>(r, s). iadd r s) (zip acc A'))"

text \<open>
  Division of an array by a scalar: by zero numpy fills the array with \<open>inf\<close> or
  \<open>nan\<close> (an array without entries stays as it is).
\<close>

definition vdiv :: "vec \<Rightarrow> real \<Rightarrow> vec option" where
  "vdiv v d = (if d = 0 \<and> v \<noteq> [] then None else Some (map (\<lambda>x. x / d) v))"

definition mdiv :: "mat \<Rightarrow> real \<Rightarrow> mat option" where
  "mdiv A d =
     (if d = 0 \<and> (\<exists>r \<in> set A. r \<noteq> []) then None else Some (map (map (\<lambda>x. x / d)) A))"

text \<open>
  \<open>np.mean\<close> of a one-dimensional array. The mean of an empty array is \<open>nan\<close>; in the
  program it is only ever subtracted from the entries of that array, of which there
  are none, so the value given here to that case is never seen.
\<close>

definition np_mean :: "vec \<Rightarrow> real" where
  "np_mean v = sum_list v / real (length v)"

text \<open>\<open>np.min\<close> and \<open>np.argmin\<close> (the first index of the minimum): ValueError when empty.\<close>

definition np_min :: "vec \<Rightarrow> real option" where
  "np_min v = (case v of [] \<Rightarrow> None | x # xs \<Rightarrow> Some (fold min xs x))"

fun argmin_from :: "vec \<Rightarrow> nat \<Rightarrow> nat \<Rightarrow> real \<Rightarrow> nat" where
  "argmin_from [] i best m = best"
| "argmin_from (x # xs) i best m =
     (if x < m then argmin_from xs (Suc i) i x else argmin_from xs (Suc i) best m)"

definition argmin :: "vec \<Rightarrow> nat option" where
  "argmin v = (case v of [] \<Rightarrow> None | x # xs \<Rightarrow> Some (argmin_from xs 1 0 x))"

text \<open>\<open>np.outer(u, v)\<close>.\<close>

definition outer :: "vec \<Rightarrow> vec \<Rightarrow> mat" where
  "outer u v = map (\<lambda>x. map (\<lambda>y. x * y) v) u"

text \<open>
  Matrix times vector, \<open>M @ w\<close>: every row has as many entries as \<open>w\<close>, or ValueError.
\<close>

definition matvec :: "mat \<Rightarrow> vec \<Rightarrow> vec option" where
  "matvec M w =
     (if \<forall>r \<in> set M. length r = length w
      then Some (map (\<lambda>r. sum_list (map2 (*) r w)) M) else None)"

text \<open>\<open>np.repeat(a, nr)\<close>: every element \<open>nr\<close> times in a row.\<close>

definition np_repeat :: "vec \<Rightarrow> nat \<Rightarrow> vec" where
  "np_repeat a nr = concat (map (replicate nr) a)"

text \<open>\<open>np.clip(x, lo, hi)\<close> is \<open>minimum(maximum(x, lo), hi)\<close>.\<close>

definition np_clip :: "real \<Rightarrow> real \<Rightarrow> real \<Rightarrow> real" where
  "np_clip x lo hi = min (max x lo) hi"

text \<open>\<open>int(np.round(x))\<close>: numpy rounds a half to the even neighbour.\<close>

definition np_round :: "real \<Rightarrow> int" where
  "np_round x =
     (let f = \<lfloor>x\<rfloor>; d = x - of_int f
      in if d < 1 / 2 then f
         else if 1 / 2 < d then f + 1
         else if even f then f else f + 1)"

text \<open>
  The infinity norms of \<open>numpy.linalg.norm(., np.inf)\<close>: the largest absolute entry of
  a vector, the largest absolute row sum of a matrix; ValueError on an empty array.
\<close>

definition norm_inf_vec :: "vec \<Rightarrow> real option" where
  "norm_inf_vec v = (case v of [] \<Rightarrow> None | x # xs \<Rightarrow> Some (fold max (map abs xs) \<bar>x\<bar>))"

definition norm_inf_mat :: "mat \<Rightarrow> real option" where
  "norm_inf_mat A =
     (case A of [] \<Rightarrow> None
      | r # rs \<Rightarrow> if r = [] then None
                else Some (fold max (map (\<lambda>s. sum_list (map abs s)) rs) (sum_list (map abs r))))"

section \<open>The Gaussian ensemble\<close>

text \<open>
  The entries of \<open>self.state\<close>, a dictionary from variable names to arrays in insertion
  order: the mean of a variable (one-dimensional) before an ensemble is drawn, its
  ensemble (one column per member) afterwards.
\<close>

datatype ndarray = Arr1 vec | Arr2 mat

type_synonym state_dict = "(string \<times> ndarray) list"

text \<open>
  What the objective stores in \<open>ens_func_values\<close>: one array with a value per member,
  or a list with one such array per level.
\<close>

datatype func_values = FArr vec | FList "vec list"

text \<open>The entry \<open>multilevel\<close> of \<open>keys_en\<close>: the declared level sizes and the weights.\<close>

record ml_config =
  en_size :: "int list"
  cov_wgt :: "real list"

text \<open>
  The collaborators of the class that are not part of it: the packing helpers of the
  tool modules, the random number generator, and the objective of the base class.
  \<^item> \<open>aug_state\<close> is \<open>at.aug_state(self.state, list(self.state.keys()))\<close>, the flattened
    array of the state;
  \<^item> \<open>update_optim_state x st\<close> is \<open>ot.update_optim_state(x, st, list(st.keys()))\<close>;
  \<^item> \<open>corr2BlockDiagonal\<close> cuts the covariance into one block per variable;
  \<^item> \<open>multivariate_normal i mean cov ne\<close> is the sample that
    \<open>np.random.multivariate_normal(mean, cov, ne)\<close> returns for variable number \<open>i\<close>,
    an array of \<open>ne\<close> rows;
  \<^item> \<open>objective X\<close> is what \<open>self.function(X)\<close> leaves in \<open>ens_func_values\<close>;
  \<^item> \<open>aux_input\<close> is the number \<open>nr\<close> that \<open>self._aux_input()\<close> returns;
  \<^item> \<open>bias_func_values st\<close> is the objective of the ensemble \<open>st\<close> under the simulation
    file \<open>bias_file\<close> (\<open>calc_prediction\<close> followed by \<open>obj_func\<close>);
  \<^item> \<open>choice l a size p\<close> is the index array that
    \<open>np.random.choice(a, size, replace=True, p=p)\<close> returns at level \<open>l\<close>.
\<close>

record collaborators =
  aug_state :: "state_dict \<Rightarrow> mat"
  update_optim_state :: "vec \<Rightarrow> state_dict \<Rightarrow> state_dict"
  corr2BlockDiagonal :: "state_dict \<Rightarrow> mat \<Rightarrow> mat list"
  multivariate_normal :: "nat \<Rightarrow> vec \<Rightarrow> mat \<Rightarrow> int \<Rightarrow> mat"
  objective :: "mat \<Rightarrow> func_values"
  aux_input :: nat
  bias_func_values :: "state_dict \<Rightarrow> vec"
  choice :: "nat \<Rightarrow> int \<Rightarrow> int \<Rightarrow> vec \<Rightarrow> nat list"

text \<open>
  The fields of a \<open>GaussianEnsemble\<close> that its methods read and write. \<open>multilevel\<close> is
  \<open>None\<close> when \<open>keys_en\<close> has no such entry; \<open>lb\<close> and \<open>ub\<close> hold one bound per variable
  (both empty without bounds).
\<close>

record gaussian_ensemble =
  state :: state_dict
  cov :: mat
  ne :: int
  num_samples :: nat
  lb :: "real list"
  ub :: "real list"
  transform :: bool
  multilevel :: "ml_config option"
  state_func_values :: "vec option"
  ens_func_values :: "func_values option"
  inflation_factor :: "real option"
  survival_factor :: "real option"
  particles :: "mat list"
  particle_values :: "vec list"
  resample_index :: "nat list option list option"
  bias_file :: "string option"
  bias_factors :: "vec option"
  bias_weights :: vec
  bias_points :: "state_dict option"

subsection \<open>Drawing the ensemble\<close>

text \<open>
  \<open>np.array([mean]).T + temp_state_en - np.array([np.mean(temp_state_en, 1)]).T\<close>: row
  \<open>j\<close> of the transposed sample is moved by the mean of the variable's component \<open>j\<close>
  minus the mean of the row.
\<close>

definition recenter :: "vec \<Rightarrow> mat \<Rightarrow> mat" where
  "recenter mean temp_state_en =
     map (\<lambda>(m, r). map (\<lambda>t. m + t - np_mean r) r) (zip mean temp_state_en)"

text \<open>The transpose of a sample whose rows have \<open>n\<close> entries: \<open>n\<close> rows, one per component.\<close>

definition transpose_sample :: "nat \<Rightarrow> mat \<Rightarrow> mat" where
  "transpose_sample n sample = map (\<lambda>j. map (\<lambda>r. r ! j) sample) [0 ..< n]"

text \<open>\<open>np.clip(shifted_ensemble, lo, hi, out=shifted_ensemble)\<close>.\<close>

definition clip_mat :: "mat \<Rightarrow> real \<Rightarrow> real \<Rightarrow> mat" where
  "clip_mat M lo hi = map (map (\<lambda>x. np_clip x lo hi)) M"

text \<open>
  The body of the loop of \<open>_gen_state_ensemble\<close> for variable number \<open>i\<close> with mean
  \<open>a\<close>. A sample of a negative number of members, or one that does not have \<open>ne\<close> rows
  of the length of the mean, is none that \<open>multivariate_normal\<close> returns.
\<close>

definition gen_variable ::
  "collaborators \<Rightarrow> gaussian_ensemble \<Rightarrow> mat list \<Rightarrow> nat \<Rightarrow> ndarray \<Rightarrow> mat option" where
  "gen_variable env e cov_blocks i a =
     (case a of Arr2 _ \<Rightarrow> None
      | Arr1 mean \<Rightarrow>
         (case getitem cov_blocks i of None \<Rightarrow> None
          | Some cov_i \<Rightarrow>
             (let sample = multivariate_normal env i mean cov_i (ne e)
              in if ne e < 0 \<or> length sample \<noteq> nat (ne e)
                    \<or> (\<exists>r \<in> set sample. length r \<noteq> length mean)
                 then None
                 else
                   (let temp_state_en = transpose_sample (length mean) sample;
                        shifted_ensemble = recenter mean temp_state_en
                    in if lb e \<noteq> [] \<and> ub e \<noteq> [] then
                         if transform e then Some (clip_mat shifted_ensemble 0 1)
                         else
                           (case (getitem (lb e) i, getitem (ub e) i) of
                              (Some lo, Some hi) \<Rightarrow> Some (clip_mat shifted_ensemble lo hi)
                            | _ \<Rightarrow> None)
                       else Some shifted_ensemble))))"

fun gen_variables ::
  "collaborators \<Rightarrow> gaussian_ensemble \<Rightarrow> mat list \<Rightarrow> nat \<Rightarrow> state_dict \<Rightarrow> state_dict option" where
  "gen_variables env e cov_blocks i [] = Some []"
| "gen_variables env e cov_blocks i ((statename, a) # rest) =
     (case gen_variable env e cov_blocks i a of None \<Rightarrow> None
      | Some shifted_ensemble \<Rightarrow>
         (case gen_variables env e cov_blocks (Suc i) rest of None \<Rightarrow> None
          | Some state_en \<Rightarrow> Some ((statename, Arr2 shifted_ensemble) # state_en)))"

text \<open>\<open>_gen_state_ensemble\<close>: the new dictionary, which the callers store in \<open>state\<close>.\<close>

definition gen_state_ensemble :: "collaborators \<Rightarrow> gaussian_ensemble \<Rightarrow> state_dict option" where
  "gen_state_ensemble env e =
     gen_variables env e (corr2BlockDiagonal env (state e) (cov e)) 0 (state e)"

subsection \<open>Bias correction\<close>

text \<open>\<open>_bias_correction\<close>: \<open>np.sum(self.bias_weights * self.bias_factors)\<close>, or 1.\<close>

definition bias_correction :: "gaussian_ensemble \<Rightarrow> real option" where
  "bias_correction e =
     (case bias_factors e of
        None \<Rightarrow> Some 1
      | Some bf \<Rightarrow> map_option sum_list (np_bin1 (*) (bias_weights e) bf))"

text \<open>
  The quotient \<open>bias_func_values / obj_func_values\<close>. The denominator is an array, or a
  list of one array (read by numpy as an array of one row, with the same entries); a
  quotient by a zero is \<open>inf\<close> or \<open>nan\<close>. With several levels the list is ragged, or its
  rows do not have the length of the numerator, and the division raises.
\<close>

definition bias_quotient :: "vec \<Rightarrow> func_values \<Rightarrow> vec option" where
  "bias_quotient b fv =
     (case (case fv of FArr v \<Rightarrow> Some v | FList [v] \<Rightarrow> Some v | FList _ \<Rightarrow> None) of
        None \<Rightarrow> None
      | Some v \<Rightarrow>
         (case np_bin1 (/) b v of None \<Rightarrow> None
          | Some q \<Rightarrow> if 0 \<in> set v \<and> q \<noteq> [] then None else Some q))"

text \<open>
  \<open>_bias_factors\<close>, on the first iteration: the factors, the points, and the rescaled
  objective value of the mean. Later iterations change nothing.
\<close>

definition bias_factors_update ::
  "collaborators \<Rightarrow> func_values \<Rightarrow> gaussian_ensemble \<Rightarrow> gaussian_ensemble option" where
  "bias_factors_update env obj_func_values e =
     (case bias_factors e of
        Some _ \<Rightarrow> Some e
      | None \<Rightarrow>
         (let e1 = e\<lparr>ne := int (num_samples e)\<rparr>
          in case bias_quotient (bias_func_values env (state e1)) obj_func_values of
               None \<Rightarrow> None
             | Some q \<Rightarrow>
                (let e2 = e1\<lparr>bias_factors := Some q, bias_points := Some (state e1)\<rparr>
                 in case (bias_correction e2, state_func_values e2) of
                      (Some c, Some sfv) \<Rightarrow> Some (e2\<lparr>state_func_values := Some (smult c sfv)\<rparr>)
                    | _ \<Rightarrow> None)))"

subsection \<open>The gradient\<close>

text \<open>
  \<open>state_ens - np.dot(state_ens.mean(1)[:, None], np.ones((1, self.ne)))\<close>: from every
  row its mean, repeated \<open>ne\<close> times, is subtracted. A negative \<open>ne\<close> raises in
  \<open>np.ones\<close>.
\<close>

definition pert_state_of :: "mat \<Rightarrow> int \<Rightarrow> mat option" where
  "pert_state_of state_ens n =
     (if n < 0 then None
      else those_map (\<lambda>r. np_sub r (replicate (nat n) (np_mean r))) state_ens)"

text \<open>
  \<open>if not isinstance(self.ens_func_values, list):
  self.ens_func_values = [self.ens_func_values]\<close>.
\<close>

definition as_list :: "func_values \<Rightarrow> vec list" where
  "as_list fv = (case fv of FArr v \<Rightarrow> [v] | FList vs \<Rightarrow> vs)"

text \<open>
  The loop over the members of one level:
  \<open>g_m = g_m + pert_obj_func[i] * pert_state[:, start_index + i]\<close>.
\<close>

fun gradient_members :: "vec \<Rightarrow> mat \<Rightarrow> nat \<Rightarrow> nat list \<Rightarrow> vec \<Rightarrow> vec option" where
  "gradient_members pert_obj_func pert_state start_index [] g_m = Some g_m"
| "gradient_members pert_obj_func pert_state start_index (i # rest) g_m =
     (case (getitem pert_obj_func i, col pert_state (start_index + i)) of
        (Some p, Some c) \<Rightarrow>
          gradient_members pert_obj_func pert_state start_index rest (vadd g_m (smult p c))
      | _ \<Rightarrow> None)"

text \<open>
  The objective values of level \<open>l\<close> as the loop leaves them in \<open>ens_func_values[l]\<close>,
  and their perturbation \<open>pert_obj_func\<close>: with bias correction the values are
  multiplied in place by the factor and their mean is subtracted; without, the
  objective value of the mean, repeated \<open>nr\<close> times, is subtracted.
\<close>

definition pert_obj_func_of ::
  "gaussian_ensemble \<Rightarrow> nat \<Rightarrow> vec \<Rightarrow> (vec \<times> vec) option" where
  "pert_obj_func_of e nr v =
     (if bias_file e \<noteq> None then
        (case bias_correction e of None \<Rightarrow> None
         | Some c \<Rightarrow> (let v' = smult c v in Some (v', map (\<lambda>y. y - np_mean v') v')))
      else
        (case state_func_values e of None \<Rightarrow> None
         | Some sfv \<Rightarrow> map_option (\<lambda>p. (v, p)) (np_sub v (np_repeat sfv nr))))"

text \<open>
  The body of the loop over the levels. The loop state is \<open>start_index\<close>,
  \<open>level_gradient\<close> and the list \<open>ens_func_values\<close>.
\<close>

definition gradient_level ::
  "gaussian_ensemble \<Rightarrow> nat \<Rightarrow> mat \<Rightarrow> nat \<Rightarrow> nat \<Rightarrow> nat \<times> vec list \<times> vec list
     \<Rightarrow> (nat \<times> vec list \<times> vec list) option" where
  "gradient_level e nr pert_state nx l st =
     (case st of (start_index, level_gradient, efv) \<Rightarrow>
       (case getitem efv l of None \<Rightarrow> None
        | Some v \<Rightarrow>
           (case pert_obj_func_of e nr v of None \<Rightarrow> None
            | Some (v', pert_obj_func) \<Rightarrow>
               (let ml_ne = length v'
                in case gradient_members pert_obj_func pert_state start_index
                          [0 ..< ml_ne] (zeros_vec nx) of
                     None \<Rightarrow> None
                   | Some g_m \<Rightarrow>
                      (case vdiv g_m (real ml_ne - 1) of None \<Rightarrow> None
                       | Some g \<Rightarrow>
                          Some (start_index + ml_ne, level_gradient @ [g], efv[l := v']))))))"

fun gradient_levels ::
  "gaussian_ensemble \<Rightarrow> nat \<Rightarrow> mat \<Rightarrow> nat \<Rightarrow> nat list \<Rightarrow> nat \<times> vec list \<times> vec list
     \<Rightarrow> (nat \<times> vec list \<times> vec list) option" where
  "gradient_levels e nr pert_state nx [] st = Some st"
| "gradient_levels e nr pert_state nx (l # rest) st =
     (case gradient_level e nr pert_state nx l st of None \<Rightarrow> None
      | Some st' \<Rightarrow> gradient_levels e nr pert_state nx rest st')"

text \<open>\<open>for l in range(L): acc += level[l] * cov_wgt[l]\<close>, on vectors and on matrices.\<close>

fun weighted_sum :: "vec list \<Rightarrow> real list \<Rightarrow> nat list \<Rightarrow> vec \<Rightarrow> vec option" where
  "weighted_sum level wgt [] acc = Some acc"
| "weighted_sum level wgt (l # rest) acc =
     (case (getitem level l, getitem wgt l) of
        (Some g, Some w) \<Rightarrow>
          (case iadd acc (smult w g) of None \<Rightarrow> None
           | Some acc' \<Rightarrow> weighted_sum level wgt rest acc')
      | _ \<Rightarrow> None)"

fun weighted_sum_mat :: "mat list \<Rightarrow> real list \<Rightarrow> nat list \<Rightarrow> mat \<Rightarrow> mat option" where
  "weighted_sum_mat level wgt [] acc = Some acc"
| "weighted_sum_mat level wgt (l # rest) acc =
     (case (getitem level l, getitem wgt l) of
        (Some h, Some w) \<Rightarrow>
          (case iadd_mat acc (mscale w h) of None \<Rightarrow> None
           | Some acc' \<Rightarrow> weighted_sum_mat level wgt rest acc')
      | _ \<Rightarrow> None)"

text \<open>
  The list \<open>level_gradient\<close> and the list \<open>ens_func_values\<close> after the loop over the
  levels of \<open>gradient\<close> (lines 167 to 192), from the fields of the object.
\<close>

definition level_gradients ::
  "collaborators \<Rightarrow> nat \<Rightarrow> gaussian_ensemble \<Rightarrow> (vec list \<times> vec list) option" where
  "level_gradients env nr e =
     (let state_ens = aug_state env (state e)
      in case pert_state_of state_ens (ne e) of None \<Rightarrow> None
         | Some pert_state \<Rightarrow>
            (case ens_func_values e of None \<Rightarrow> None
             | Some fv \<Rightarrow>
                (let efv = as_list fv
                 in case gradient_levels e nr pert_state (length state_ens)
                           [0 ..< length efv] (0, [], efv) of
                      None \<Rightarrow> None
                    | Some (start_index, level_gradient, efv') \<Rightarrow>
                        Some (level_gradient, efv'))))"

text \<open>
  The second half of \<open>gradient\<close> (from line 167): the level gradients and their
  combination. It returns the gradient and the object, whose \<open>ens_func_values\<close> is now a
  list (rescaled under bias correction).
\<close>

definition gradient_estimate ::
  "collaborators \<Rightarrow> nat \<Rightarrow> gaussian_ensemble \<Rightarrow> (vec \<times> gaussian_ensemble) option" where
  "gradient_estimate env nr e =
     (case level_gradients env nr e of None \<Rightarrow> None
      | Some (level_gradient, efv') \<Rightarrow>
         (let e' = e\<lparr>ens_func_values := Some (FList efv')\<rparr>;
              L = length efv'
          in case multilevel e of
               Some ml \<Rightarrow>
                 (case weighted_sum level_gradient (cov_wgt ml) [0 ..< L]
                         (zeros_vec (length (aug_state env (state e)))) of
                    None \<Rightarrow> None
                  | Some acc \<Rightarrow> map_option (\<lambda>g. (g, e')) (vdiv acc (of_int (ne e))))
             | None \<Rightarrow> map_option (\<lambda>g. (g, e')) (getitem level_gradient 0)))"

text \<open>
  The first half of \<open>gradient(x, cov)\<close> (up to line 165): the mean and the covariance
  are stored, an ensemble of \<open>num_samples\<close> members is drawn and evaluated, and the
  bias factors are computed when a bias file is configured.
\<close>

definition gradient_sample ::
  "collaborators \<Rightarrow> vec \<Rightarrow> mat \<Rightarrow> gaussian_ensemble \<Rightarrow> gaussian_ensemble option" where
  "gradient_sample env x cov_arg e =
     (let e1 = e\<lparr>state := update_optim_state env x (state e), cov := cov_arg,
                 ne := int (num_samples e)\<rparr>
      in case gen_state_ensemble env e1 of None \<Rightarrow> None
         | Some state_en \<Rightarrow>
            (let e2 = e1\<lparr>state := state_en\<rparr>;
                 fv = objective env (aug_state env (state e2));
                 e3 = e2\<lparr>ens_func_values := Some fv\<rparr>
             in if bias_file e3 \<noteq> None then bias_factors_update env fv e3 else Some e3))"

text \<open>\<open>gradient(x, cov)\<close>: the gradient and the object.\<close>

definition gradient ::
  "collaborators \<Rightarrow> vec \<Rightarrow> mat \<Rightarrow> gaussian_ensemble \<Rightarrow> (vec \<times> gaussian_ensemble) option" where
  "gradient env x cov_arg e =
     (case gradient_sample env x cov_arg e of None \<Rightarrow> None
      | Some e4 \<Rightarrow> gradient_estimate env (aux_input env) e4)"

subsection \<open>The hessian\<close>

text \<open>
  The loop over the members of one level:
  \<open>g_c = g_c + pert_obj_func[i] * (np.outer(c, c) - self.cov)\<close> with \<open>c\<close> the column
  \<open>pert_state[:, start_index + i]\<close>.
\<close>

fun hessian_members :: "vec \<Rightarrow> mat \<Rightarrow> mat \<Rightarrow> nat \<Rightarrow> nat list \<Rightarrow> mat \<Rightarrow> mat option" where
  "hessian_members pert_obj_func pert_state C start_index [] g_c = Some g_c"
| "hessian_members pert_obj_func pert_state C start_index (i # rest) g_c =
     (case (getitem pert_obj_func i, col pert_state (start_index + i)) of
        (Some p, Some c) \<Rightarrow>
          (case np_bin2 (-) (outer c c) C of None \<Rightarrow> None
           | Some d \<Rightarrow>
              (case np_bin2 (+) g_c (mscale p d) of None \<Rightarrow> None
               | Some g_c' \<Rightarrow> hessian_members pert_obj_func pert_state C start_index rest g_c'))
      | _ \<Rightarrow> None)"

text \<open>The body of the loop over the levels; the loop state is \<open>start_index\<close> and \<open>level_hessian\<close>.\<close>

definition hessian_level ::
  "gaussian_ensemble \<Rightarrow> nat \<Rightarrow> mat \<Rightarrow> vec list \<Rightarrow> nat \<Rightarrow> nat \<times> mat list
     \<Rightarrow> (nat \<times> mat list) option" where
  "hessian_level e nr pert_state efv l st =
     (case st of (start_index, level_hessian) \<Rightarrow>
       (case (getitem efv l, state_func_values e) of
          (Some v, Some sfv) \<Rightarrow>
            (case np_sub v (np_repeat sfv nr) of None \<Rightarrow> None
             | Some pert_obj_func \<Rightarrow>
                (let ml_ne = length v
                 in case hessian_members pert_obj_func pert_state (cov e) start_index
                           [0 ..< ml_ne] (zeros_mat (cov e)) of
                      None \<Rightarrow> None
                    | Some g_c \<Rightarrow>
                       (case mdiv g_c (real ml_ne - 1) of None \<Rightarrow> None
                        | Some h \<Rightarrow> Some (start_index + ml_ne, level_hessian @ [h]))))
        | _ \<Rightarrow> None))"

fun hessian_levels ::
  "gaussian_ensemble \<Rightarrow> nat \<Rightarrow> mat \<Rightarrow> vec list \<Rightarrow> nat list \<Rightarrow> nat \<times> mat list
     \<Rightarrow> (nat \<times> mat list) option" where
  "hessian_levels e nr pert_state efv [] st = Some st"
| "hessian_levels e nr pert_state efv (l # rest) st =
     (case hessian_level e nr pert_state efv l st of None \<Rightarrow> None
      | Some st' \<Rightarrow> hessian_levels e nr pert_state efv rest st')"

text \<open>
  The list \<open>level_hessian\<close> after the loop over the levels of \<open>hessian\<close>, and the list
  \<open>ens_func_values\<close>.
\<close>

definition level_hessians ::
  "collaborators \<Rightarrow> gaussian_ensemble \<Rightarrow> (mat list \<times> vec list) option" where
  "level_hessians env e =
     (let state_ens = aug_state env (state e)
      in case pert_state_of state_ens (ne e) of None \<Rightarrow> None
         | Some pert_state \<Rightarrow>
            (case ens_func_values e of None \<Rightarrow> None
             | Some fv \<Rightarrow>
                (let efv = as_list fv
                 in map_option (\<lambda>st. (snd st, efv))
                      (hessian_levels e (aux_input env) pert_state efv
                         [0 ..< length efv] (0, [])))))"

text \<open>
  \<open>hessian()\<close>: computed from the fields \<open>state\<close>, \<open>ne\<close>, \<open>cov\<close>, \<open>ens_func_values\<close> and
  \<open>state_func_values\<close> of the object as they are. It draws no ensemble and does not
  call the objective; the only field it writes is \<open>ens_func_values\<close>, which becomes a
  list.
\<close>

definition hessian :: "collaborators \<Rightarrow> gaussian_ensemble \<Rightarrow> (mat \<times> gaussian_ensemble) option" where
  "hessian env e =
     (case level_hessians env e of None \<Rightarrow> None
      | Some (level_hessian, efv) \<Rightarrow>
         (let e' = e\<lparr>ens_func_values := Some (FList efv)\<rparr>;
              L = length efv
          in case multilevel e of
               Some ml \<Rightarrow>
                 (case weighted_sum_mat level_hessian (cov_wgt ml) [0 ..< L]
                         (zeros_mat (cov e)) of
                    None \<Rightarrow> None
                  | Some acc \<Rightarrow> map_option (\<lambda>h. (h, e')) (mdiv acc (of_int (ne e))))
             | None \<Rightarrow> map_option (\<lambda>h. (h, e')) (getitem level_hessian 0)))"

subsection \<open>Sequential Monte Carlo weights\<close>

text \<open>
  The loop \<open>weights[i] = np.exp(np.clip(-(pv[i] - np.min(pv)) * inflation_factor, None, 10))\<close>.
\<close>

fun weights_loop :: "vec \<Rightarrow> real \<Rightarrow> nat list \<Rightarrow> vec \<Rightarrow> vec option" where
  "weights_loop pv infl [] weights = Some weights"
| "weights_loop pv infl (i # rest) weights =
     (case (getitem pv i, np_min pv) of
        (Some v, Some m) \<Rightarrow>
          weights_loop pv infl rest (weights[i := exp (min (- (v - m) * infl) 10)])
      | _ \<Rightarrow> None)"

text \<open>
  The weights of one level, lines 349 to 355: \<open>ml_ne\<close> weights from the particle
  values \<open>pv\<close>, the constant added, normalised by their sum.
\<close>

definition smc_weights :: "vec \<Rightarrow> real \<Rightarrow> int \<Rightarrow> vec option" where
  "smc_weights pv infl ml_ne =
     (case zeros ml_ne of None \<Rightarrow> None
      | Some w0 \<Rightarrow>
         (case weights_loop pv infl (arange ml_ne) w0 of None \<Rightarrow> None
          | Some w1 \<Rightarrow>
             (let w2 = map (\<lambda>w. w + 1 / 1000000) w1
              in Some (map (\<lambda>w. w / sum_list w2) w2))))"

text \<open>
  The number of new samples of level \<open>l\<close> of \<open>L\<close>, lines 332 to 336, with the running
  total \<open>ml_ne_new_total\<close> before and after.
\<close>

definition new_samples :: "nat \<Rightarrow> real \<Rightarrow> nat \<Rightarrow> nat \<Rightarrow> int \<Rightarrow> int \<Rightarrow> int \<times> int" where
  "new_samples n_samples f L l ml_ne ml_ne_new_total =
     (if L > 1 \<and> l = L - 1 then (np_round (real n_samples * f) - ml_ne_new_total, ml_ne_new_total)
      else (let ml_ne_new = np_round (of_int ml_ne * f)
            in (ml_ne_new, ml_ne_new_total + ml_ne_new)))"

text \<open>The variables of the loop over the levels, and the object it writes to.\<close>

record smc_loop =
  start_index :: int
  ml_ne_new_total :: int
  level_sens :: "vec list"
  best_ens :: vec
  best_func :: real
  ens :: gaussian_ensemble

text \<open>
  Lines 339 to 346: the particles and the particle values after level \<open>l\<close> was seeded
  (no resample index yet) or resampled and refilled.
\<close>

definition update_particles ::
  "gaussian_ensemble \<Rightarrow> mat \<Rightarrow> vec \<Rightarrow> nat \<Rightarrow> int \<Rightarrow> int \<Rightarrow> int \<Rightarrow> int \<Rightarrow> nat list option
     \<Rightarrow> (mat list \<times> vec list) option" where
  "update_particles e state_ens fv_l l start ml_ne ml_ne_new ml_ne_surv ri_l =
     (case ri_l of
        None \<Rightarrow>
          Some (particles e @ [col_slice state_ens start (start + ml_ne)],
                particle_values e @ [fv_l])
      | Some idx \<Rightarrow>
          (case (getitem (particles e) l, getitem (particle_values e) l) of
             (Some P, Some pv) \<Rightarrow>
               (case gather_cols P idx of None \<Rightarrow> None
                | Some G \<Rightarrow>
                   (case assign_cols_to P ml_ne_surv G of None \<Rightarrow> None
                    | Some P1 \<Rightarrow>
                       (case assign_cols_from P1 ml_ne_surv
                               (col_slice state_ens start (start + ml_ne_new)) of
                          None \<Rightarrow> None
                        | Some P2 \<Rightarrow>
                           (case gather pv idx of None \<Rightarrow> None
                            | Some gv \<Rightarrow>
                               (case assign_to pv ml_ne_surv gv of None \<Rightarrow> None
                                | Some pv1 \<Rightarrow>
                                   (case assign_from pv1 ml_ne_surv fv_l of None \<Rightarrow> None
                                    | Some pv2 \<Rightarrow>
                                       Some ((particles e)[l := P2],
                                             (particle_values e)[l := pv2])))))))
           | _ \<Rightarrow> None))"

text \<open>
  \<open>np.random.choice(ml_ne, ml_ne_surv, replace=True, p=weights)\<close> raises for a
  negative size, for a population that is not positive (its probabilities cannot sum
  to one), and for probabilities of another length.
\<close>

definition draw_resample_index ::
  "collaborators \<Rightarrow> nat \<Rightarrow> int \<Rightarrow> int \<Rightarrow> vec \<Rightarrow> nat list option" where
  "draw_resample_index env l ml_ne ml_ne_surv weights =
     (if ml_ne_surv < 0 \<or> ml_ne \<le> 0 \<or> int (length weights) \<noteq> ml_ne then None
      else Some (choice env l ml_ne ml_ne_surv weights))"

text \<open>The body of the loop over the levels of \<open>calc_ensemble_weights\<close>, lines 331 to 364.\<close>

definition smc_level ::
  "collaborators \<Rightarrow> nat \<Rightarrow> int list \<Rightarrow> mat \<Rightarrow> vec list \<Rightarrow> real \<Rightarrow> real \<Rightarrow> nat \<Rightarrow> nat
     \<Rightarrow> smc_loop \<Rightarrow> smc_loop option" where
  "smc_level env n_samples en_sz state_ens efv infl f L l st =
     (case (getitem en_sz l, resample_index (ens st), getitem efv l) of
        (Some ml_ne, Some ri, Some fv_l) \<Rightarrow>
          (case new_samples n_samples f L l ml_ne (ml_ne_new_total st) of
             (ml_ne_new, new_total) \<Rightarrow>
               (let ml_ne_surv = ml_ne - ml_ne_new
                in case getitem ri l of None \<Rightarrow> None
                   | Some ri_l \<Rightarrow>
                      (case update_particles (ens st) state_ens fv_l l (start_index st)
                              ml_ne ml_ne_new ml_ne_surv ri_l of
                         None \<Rightarrow> None
                       | Some (ps, pvs) \<Rightarrow>
                          (case (getitem ps l, getitem pvs l) of
                             (Some P, Some pv) \<Rightarrow>
                               (case smc_weights pv infl ml_ne of None \<Rightarrow> None
                                | Some weights \<Rightarrow>
                                   (case matvec P weights of None \<Rightarrow> None
                                    | Some sens \<Rightarrow>
                                       (case (if l = L - 1
                                              then (case argmin pv of None \<Rightarrow> None
                                                    | Some index \<Rightarrow>
                                                       map_option (\<lambda>b. (b, pv ! index)) (col P index))
                                              else Some (best_ens st, best_func st)) of
                                          None \<Rightarrow> None
                                        | Some (b_ens, b_func) \<Rightarrow>
                                           (case draw_resample_index env l ml_ne ml_ne_surv weights of
                                              None \<Rightarrow> None
                                            | Some idx \<Rightarrow>
                                               Some (st\<lparr>start_index := start_index st + ml_ne_new,
                                                        ml_ne_new_total := new_total,
                                                        level_sens := level_sens st @ [sens],
                                                        best_ens := b_ens,
                                                        best_func := b_func,
                                                        ens := (ens st)\<lparr>particles := ps,
                                                                 particle_values := pvs,
                                                                 resample_index := Some (ri[l := Some idx])\<rparr>\<rparr>)))))
                           | _ \<Rightarrow> None))))
      | _ \<Rightarrow> None)"

fun smc_levels ::
  "collaborators \<Rightarrow> nat \<Rightarrow> int list \<Rightarrow> mat \<Rightarrow> vec list \<Rightarrow> real \<Rightarrow> real \<Rightarrow> nat \<Rightarrow> nat list
     \<Rightarrow> smc_loop \<Rightarrow> smc_loop option" where
  "smc_levels env n_samples en_sz state_ens efv infl f L [] st = Some st"
| "smc_levels env n_samples en_sz state_ens efv infl f L (l # rest) st =
     (case smc_level env n_samples en_sz state_ens efv infl f L l st of None \<Rightarrow> None
      | Some st' \<Rightarrow> smc_levels env n_samples en_sz state_ens efv infl f L rest st')"

text \<open>
  The declared level sizes: \<open>en_size\<close> of the multilevel configuration, or the one size
  \<open>num_samples\<close>.
\<close>

definition level_sizes :: "gaussian_ensemble \<Rightarrow> int list" where
  "level_sizes e =
     (case multilevel e of Some ml \<Rightarrow> en_size ml | None \<Rightarrow> [int (num_samples e)])"

text \<open>
  The second half of \<open>calc_ensemble_weights\<close> (from line 318), on the object that holds
  the fresh ensemble in \<open>state\<close>, its objective values \<open>efv\<close> as a list, and a resample
  index: the loop over the levels started from its initial variables.
\<close>

definition smc_run ::
  "collaborators \<Rightarrow> real \<Rightarrow> real \<Rightarrow> vec list \<Rightarrow> gaussian_ensemble \<Rightarrow> smc_loop option" where
  "smc_run env infl f efv e =
     smc_levels env (num_samples e) (level_sizes e) (aug_state env (state e)) efv infl f
       (length efv) [0 ..< length efv]
       \<lparr>start_index = 0, ml_ne_new_total = 0, level_sens = [], best_ens = [0],
        best_func = 0, ens = e\<rparr>"

text \<open>The combination of the level sensitivities, lines 366 to 372.\<close>

definition combine_sens ::
  "collaborators \<Rightarrow> gaussian_ensemble \<Rightarrow> nat \<Rightarrow> vec list \<Rightarrow> vec option" where
  "combine_sens env e L lsens =
     (case multilevel e of
        Some ml \<Rightarrow>
          (case weighted_sum lsens (cov_wgt ml) [0 ..< L]
                  (zeros_vec (length (aug_state env (state e)))) of
             None \<Rightarrow> None
           | Some acc \<Rightarrow> vdiv acc (real (num_samples e)))
      | None \<Rightarrow> getitem lsens 0)"

text \<open>
  The first half of \<open>calc_ensemble_weights(x, inflation_factor, cov, survival_factor)\<close>
  (up to line 316): the arguments are stored, the ensemble is drawn (\<open>num_samples\<close>
  members on the first call, \<open>int(np.round(num_samples * survival_factor))\<close> on a later
  one) and evaluated, the objective values become a list, the resample index of a
  first call becomes \<open>[None] * L\<close>, and the bias factors are computed when a bias file
  is configured. It returns the list of objective values and the object.
\<close>

definition smc_prepare ::
  "collaborators \<Rightarrow> vec \<Rightarrow> real \<Rightarrow> mat \<Rightarrow> real \<Rightarrow> gaussian_ensemble
     \<Rightarrow> (vec list \<times> gaussian_ensemble) option" where
  "smc_prepare env x infl cov_arg f e =
     (let e1 = e\<lparr>state := update_optim_state env x (state e),
                 inflation_factor := Some infl, cov := cov_arg, survival_factor := Some f\<rparr>;
          e2 = e1\<lparr>ne := (if resample_index e1 = None then int (num_samples e1)
                          else np_round (real (num_samples e1) * f))\<rparr>
      in case gen_state_ensemble env e2 of None \<Rightarrow> None
         | Some state_en \<Rightarrow>
            (let e3 = e2\<lparr>state := state_en\<rparr>;
                 fv = objective env (aug_state env (state e3));
                 efv = as_list fv;
                 L = length efv;
                 e4 = e3\<lparr>ens_func_values := Some (FList efv),
                         resample_index :=
                           (case resample_index e3 of None \<Rightarrow> Some (replicate L None)
                            | Some ri \<Rightarrow> Some ri)\<rparr>
             in map_option (\<lambda>e5. (efv, e5))
                  (if bias_file e4 \<noteq> None then bias_factors_update env (FList efv) e4
                   else Some e4)))"

text \<open>
  \<open>calc_ensemble_weights\<close>: the result \<open>(sens_matrix, best_ens, best_func)\<close> and the
  object. The scalar \<open>0\<close> that \<open>best_ens\<close> starts from is written as the array \<open>[0]\<close>.
\<close>

definition calc_ensemble_weights ::
  "collaborators \<Rightarrow> vec \<Rightarrow> real \<Rightarrow> mat \<Rightarrow> real \<Rightarrow> gaussian_ensemble
     \<Rightarrow> ((vec \<times> vec \<times> real) \<times> gaussian_ensemble) option" where
  "calc_ensemble_weights env x infl cov_arg f e =
     (case smc_prepare env x infl cov_arg f e of None \<Rightarrow> None
      | Some (efv, e5) \<Rightarrow>
         (case smc_run env infl f efv e5 of None \<Rightarrow> None
          | Some st \<Rightarrow>
             map_option (\<lambda>sens_matrix. ((sens_matrix, best_ens st, best_func st), ens st))
               (combine_sens env e5 (length efv) (level_sens st))))"

section \<open>The line search\<close>

text \<open>
  The closures \<open>fun\<close>, \<open>jac\<close> and \<open>hess\<close> given to \<open>LineSearch\<close> act on a world \<open>'w\<close>
  of their own (the ensemble object behind them). The nested functions \<open>_fun\<close> and
  \<open>_jac\<close> of \<open>calc_update\<close> count their calls; what they can change, the world and
  the two counters, is the evaluator.
\<close>

record 'w evaluator =
  world :: 'w
  nfev :: nat
  njev :: nat

text \<open>
  The tuple \<open>(step_size, _, _, fnew, _, slope)\<close> read off the result of
  \<open>scipy.optimize.line_search\<close>; each of the three is \<open>None\<close> or a number or array.
\<close>

record ls_result =
  step_size :: "real option"
  fnew :: "real option"
  slope :: "vec option"

text \<open>
  The fields of \<open>LineSearch\<close> that \<open>__init__\<close> sets from its arguments and that are not
  written afterwards, and the helpers of the tool module that \<open>calc_update\<close> calls.
  \<^item> \<open>func x C w\<close> is \<open>self.fun(x, C).mean()\<close>, \<open>jac x C w\<close> is \<open>self.jac(x, C)\<close> and
    \<open>hess w\<close> is \<open>self.hess()\<close>, each with the world it leaves;
  \<^item> \<open>clip_state\<close> and \<open>get_sym_pos_semidef\<close> are the functions of \<open>ot\<close>;
  \<^item> \<open>line_search f fprime xk pk gfk old_fval c1 c2 amax maxiter\<close> is scipy's
    \<open>line_search\<close>; its direction \<open>pk\<close> is \<open>None\<close> when the division by the norm of the
    gradient leaves the reals.
\<close>

record ('w, 'b) ls_options =
  func :: "vec \<Rightarrow> mat \<Rightarrow> 'w \<Rightarrow> real \<times> 'w"
  jac :: "vec \<Rightarrow> mat \<Rightarrow> 'w \<Rightarrow> vec \<times> 'w"
  hess :: "'w \<Rightarrow> mat \<times> 'w"
  bounds :: 'b
  clip_state :: "vec \<Rightarrow> 'b \<Rightarrow> vec"
  get_sym_pos_semidef :: "mat \<Rightarrow> mat"
  line_search ::
    "(vec \<Rightarrow> 'w evaluator \<Rightarrow> real \<times> 'w evaluator) \<Rightarrow> (vec \<Rightarrow> 'w evaluator \<Rightarrow> vec \<times> 'w evaluator)
       \<Rightarrow> vec \<Rightarrow> vec option \<Rightarrow> vec \<Rightarrow> real \<Rightarrow> real \<Rightarrow> real \<Rightarrow> real \<Rightarrow> nat
       \<Rightarrow> 'w evaluator \<Rightarrow> ls_result \<times> 'w evaluator"
  alpha_iter_max :: nat
  alpha_cov :: real
  normalize :: bool
  iter_resamp_max :: nat
  shrink_factor :: real
  alpha_max :: real
  c1 :: real
  c2 :: real

text \<open>What the logger receives: a message, or the formatted line of an accepted step.\<close>

datatype log_entry = Info string | IterInfo nat real real real

text \<open>
  The fields that \<open>calc_update\<close> writes. Of \<open>obj_func_values\<close> the method only ever
  reads the mean, which is what the field holds here.
\<close>

record 'w line_search_state =
  cov :: mat
  mean_state :: vec
  pk_from_ls :: "vec option"
  obj_func_values :: real
  alpha :: real
  iteration :: nat
  evaluator :: "'w evaluator"
  logger :: "log_entry list"

text \<open>The nested functions \<open>_jac\<close> and \<open>_fun\<close> of \<open>calc_update\<close>, for the covariance \<open>C\<close>.\<close>

definition calc_update_jac ::
  "('w, 'b) ls_options \<Rightarrow> mat \<Rightarrow> vec \<Rightarrow> 'w evaluator \<Rightarrow> vec \<times> 'w evaluator" where
  "calc_update_jac opts C x ev =
     (let ev1 = ev\<lparr>njev := njev ev + 1\<rparr>;
          x' = clip_state opts x (bounds opts);
          (g, w) = jac opts x' C (world ev1)
      in (g, ev1\<lparr>world := w\<rparr>))"

definition calc_update_fun ::
  "('w, 'b) ls_options \<Rightarrow> mat \<Rightarrow> vec \<Rightarrow> 'w evaluator \<Rightarrow> real \<times> 'w evaluator" where
  "calc_update_fun opts C x ev =
     (let ev1 = ev\<lparr>nfev := nfev ev + 1\<rparr>;
          x' = clip_state opts x (bounds opts);
          (f, w) = func opts x' C (world ev1)
      in (f, ev1\<lparr>world := w\<rparr>))"

text \<open>
  The first part of \<open>calc_update\<close>, up to the call of the line search (lines 86 to
  113): the gradient \<open>pk\<close>, the hessian \<open>H\<close> (scaled by its infinity norm, floored
  at \<open>1e-12\<close>, when \<open>normalize\<close> is set), \<open>pk_norm\<close>, the result of the line search, and the
  state with the message logged and the evaluator as the calls left it.
\<close>

definition search ::
  "('w, 'b) ls_options \<Rightarrow> 'w line_search_state
     \<Rightarrow> (vec \<times> mat \<times> real \<times> ls_result \<times> 'w line_search_state) option" where
  "search opts s =
     (let (pk, ev1) = (case pk_from_ls s of
                         None \<Rightarrow> calc_update_jac opts (cov s) (mean_state s) (evaluator s)
                       | Some p \<Rightarrow> (p, evaluator s));
          (hessian0, w2) = hess opts (world ev1);
          ev2 = ev1\<lparr>world := w2\<rparr>
      in case (if normalize opts
               then (case (norm_inf_mat hessian0, norm_inf_vec pk) of
                       (Some hn, Some pn) \<Rightarrow>
                         map_option (\<lambda>h. (h, pn)) (mdiv hessian0 (max hn (1 / 10 ^ 12)))
                     | _ \<Rightarrow> None)
               else Some (hessian0, 1)) of
           None \<Rightarrow> None
         | Some (H, pk_norm) \<Rightarrow>
            (let (res, ev3) =
                   line_search opts (calc_update_fun opts (cov s)) (calc_update_jac opts (cov s))
                     (mean_state s) (vdiv (smult (- 1) pk) pk_norm) pk (obj_func_values s)
                     (c1 opts) (c2 opts) (alpha_max opts) (alpha_iter_max opts) ev2
             in Some (pk, H, pk_norm, res,
                      s\<lparr>evaluator := ev3,
                        logger := logger s @ [Info ''Performing line search...'']\<rparr>)))"

text \<open>
  The branch of an accepted step (lines 116 to 143), for the step size \<open>step\<close>. The
  new mean must be real-valued; \<open>np.mean(fnew)\<close> raises when \<open>fnew\<close> is \<open>None\<close>, and
  \<open>self.cov[0, 0]\<close> when the covariance is empty.
\<close>

definition accept_step ::
  "('w, 'b) ls_options \<Rightarrow> vec \<Rightarrow> mat \<Rightarrow> real \<Rightarrow> ls_result \<Rightarrow> real \<Rightarrow> 'w line_search_state
     \<Rightarrow> 'w line_search_state option" where
  "accept_step opts pk H pk_norm res step s =
     (case (vdiv (smult step pk) pk_norm, fnew res,
            np_bin2 (-) (cov s) (mscale (alpha_cov opts) H)) of
        (Some d, Some f, Some C) \<Rightarrow>
          (case np_bin1 (-) (mean_state s) d of None \<Rightarrow> None
           | Some x \<Rightarrow>
              (let C' = get_sym_pos_semidef opts C
               in case C' of
                    (c00 # _) # _ \<Rightarrow>
                      Some (s\<lparr>mean_state := clip_state opts x (bounds opts),
                              obj_func_values := f,
                              alpha := step,
                              pk_from_ls := slope res,
                              cov := C',
                              logger := logger s @
                                [Info ''Strong Wolfie conditions satisfied'',
                                 IterInfo (iteration s) f step c00],
                              iteration := iteration s + 1\<rparr>)
                  | _ \<Rightarrow> None))
      | _ \<Rightarrow> None)"

text \<open>
  \<open>calc_update(iter_resamp)\<close>: the success flag and the state. The recursion of the
  retry is bounded by \<open>iter_resamp_max - iter_resamp\<close>.
\<close>

function calc_update ::
  "('w, 'b) ls_options \<Rightarrow> nat \<Rightarrow> 'w line_search_state \<Rightarrow> (bool \<times> 'w line_search_state) option" where
  "calc_update opts iter_resamp s =
     (case search opts s of None \<Rightarrow> None
      | Some (pk, H, pk_norm, res, s1) \<Rightarrow>
         (case step_size res of
            Some step \<Rightarrow>
              map_option (\<lambda>s'. (True, s')) (accept_step opts pk H pk_norm res step s1)
          | None \<Rightarrow>
              (let s2 = s1\<lparr>logger := logger s1 @ [Info ''Strong Wolfie conditions not satisfied'']\<rparr>
               in if iter_resamp < iter_resamp_max opts
                  then calc_update opts (iter_resamp + 1)
                         (s2\<lparr>logger := logger s2 @ [Info ''Resampling Gradient''],
                             pk_from_ls := None,
                             cov := mscale (shrink_factor opts) (cov s2)\<rparr>)
                  else Some (False, s2))))"
  by pat_completeness auto
termination
  by (relation "measure (\<lambda>(opts, iter_resamp, s). iter_resamp_max opts - iter_resamp)") auto

section \<open>The claims' own words, and an example\<close>


text \<open>
  Collaborators for the examples: the flattened state stacks the arrays of the
  dictionary, every variable gets the whole covariance as its block and the sample
  \<open>sample i\<close>, and the resampling always picks particle 0.
\<close>

definition example_env :: "(mat \<Rightarrow> func_values) \<Rightarrow> (nat \<Rightarrow> mat) \<Rightarrow> collaborators" where
  "example_env obj sample =
     \<lparr>aug_state = (\<lambda>st. concat (map (\<lambda>(n, a). case a of Arr1 v \<Rightarrow> map (\<lambda>x. [x]) v
                                                       | Arr2 M \<Rightarrow> M) st)),
      update_optim_state = (\<lambda>x st. map (\<lambda>(n, a). (n, Arr1 x)) st),
      corr2BlockDiagonal = (\<lambda>st C. map (\<lambda>_. C) st),
      multivariate_normal = (\<lambda>i mean C n. sample i),
      objective = obj,
      aux_input = 1,
      bias_func_values = (\<lambda>st. []),
      choice = (\<lambda>l a n p. replicate (nat n) 0)\<rparr>"

text \<open>
  An ensemble object for the examples, with the state \<open>st\<close>, \<open>n\<close> samples and the
  multilevel configuration \<open>ml\<close>: no bounds, no bias file, objective value 1 at the mean.
\<close>

definition example_ensemble :: "state_dict \<Rightarrow> nat \<Rightarrow> ml_config option \<Rightarrow> gaussian_ensemble" where
  "example_ensemble st n ml =
     \<lparr>state = st, cov = [[1]], ne = int n, num_samples = n, lb = [], ub = [], transform = True,
      multilevel = ml, state_func_values = Some [1], ens_func_values = None,
      inflation_factor = None, survival_factor = None, particles = [], particle_values = [],
      resample_index = None, bias_file = None, bias_factors = None, bias_weights = [],
      bias_points = None\<rparr>"



text \<open>
  The interval to which \<open>_gen_state_ensemble\<close> clips variable number \<open>i\<close>: none
  without bounds, \<open>[0, 1]\<close> in the transformed space, the variable's bounds otherwise.
\<close>

definition clip_bounds :: "gaussian_ensemble \<Rightarrow> nat \<Rightarrow> (real \<times> real) option" where
  "clip_bounds e i =
     (if lb e \<noteq> [] \<and> ub e \<noteq> []
      then (if transform e then Some (0, 1) else Some (lb e ! i, ub e ! i))
      else None)"


section \<open>Properties of the weights\<close>

lemma np_min_Min: "pv \<noteq> [] \<Longrightarrow> np_min pv = Some (Min (set pv))"
  by (cases pv) (simp_all add: np_min_def Min.set_eq_fold[symmetric])

text \<open>The loop writes the weight of every index it visits and leaves the others.\<close>

lemma weights_loop_spec:
  "\<forall>i \<in> set idx. i < length pv \<and> i < length w \<Longrightarrow>
   \<exists>w'. weights_loop pv infl idx w = Some w' \<and> length w' = length w \<and>
     (\<forall>j < length w. w' ! j =
        (if j \<in> set idx then exp (min (- (pv ! j - Min (set pv)) * infl) 10) else w ! j))"
proof (induction idx arbitrary: w)
  case Nil
  then show ?case by simp
next
  case (Cons i rest)
  let ?f = "\<lambda>j. exp (min (- (pv ! j - Min (set pv)) * infl) 10)"
  from Cons.prems have i: "i < length pv" "i < length w" by auto
  then have ne: "pv \<noteq> []" by auto
  let ?w1 = "w[i := ?f i]"
  have step: "weights_loop pv infl (i # rest) w = weights_loop pv infl rest ?w1"
    using i ne by (simp add: getitem_def np_min_Min)
  have "\<forall>k \<in> set rest. k < length pv \<and> k < length ?w1" using Cons.prems by auto
  from Cons.IH[OF this] obtain w' where w': "weights_loop pv infl rest ?w1 = Some w'"
    "length w' = length ?w1"
    "\<forall>j < length ?w1. w' ! j = (if j \<in> set rest then ?f j else ?w1 ! j)" by blast
  show ?case
    apply (rule exI[of _ w'])
    using w' step i by (auto simp: nth_list_update)
qed

text \<open>The weights of a level whose declared size is the number of its particle values.\<close>

lemma smc_weights_eq:
  assumes "pv \<noteq> []"
  shows "smc_weights pv infl (int (length pv)) =
    Some (map (\<lambda>w. w / sum_list (map (\<lambda>j. exp (min (- (pv ! j - Min (set pv)) * infl) 10)
                                         + 1 / 1000000) [0 ..< length pv]))
          (map (\<lambda>j. exp (min (- (pv ! j - Min (set pv)) * infl) 10) + 1 / 1000000)
             [0 ..< length pv]))"
proof -
  let ?f = "\<lambda>j. exp (min (- (pv ! j - Min (set pv)) * infl) 10)"
  let ?n = "length pv"
  have "\<forall>i \<in> set [0 ..< ?n]. i < length pv \<and> i < length (replicate ?n (0::real))" by simp
  from weights_loop_spec[OF this, of infl] obtain w' where w':
    "weights_loop pv infl [0 ..< ?n] (replicate ?n 0) = Some w'" "length w' = ?n"
    "\<forall>j < ?n. w' ! j = ?f j" by auto
  have "w' = map ?f [0 ..< ?n]" using w'(2,3) by (intro nth_equalityI) auto
  then show ?thesis using w'(1) by (simp add: smc_weights_def zeros_def arange_def comp_def)
qed

lemma sum_list_div: "sum_list (map (\<lambda>w. w / (c::real)) ws) = sum_list ws / c"
  by (induction ws) (simp_all add: add_divide_distrib)

lemma sum_list_pos_real: "ws \<noteq> [] \<Longrightarrow> (\<forall>w \<in> set ws. (0::real) < w) \<Longrightarrow> 0 < sum_list ws"
  by (induction ws) (auto intro: add_pos_nonneg sum_list_nonneg less_imp_le)

text \<open>
  Claim C7, as the code has it. For a non-empty vector of particle values, the weights
  of lines 349 to 355 exist, one per particle; each is strictly positive and they sum
  to one, whatever the inflation factor. When the inflation factor is not negative,
  every particle whose value is the minimum has the largest weight. (For a negative
  inflation factor the order is reversed, see the counterexample.)
\<close>

theorem smc_weights_normalised:
  assumes "pv \<noteq> []"
  shows "\<exists>w. smc_weights pv infl (int (length pv)) = Some w \<and> length w = length pv
           \<and> (\<forall>i < length pv. 0 < w ! i) \<and> sum_list w = 1
           \<and> (0 \<le> infl \<longrightarrow>
                (\<forall>k < length pv. pv ! k = Min (set pv) \<longrightarrow> (\<forall>i < length pv. w ! i \<le> w ! k)))"
proof -
  let ?f = "\<lambda>j. exp (min (- (pv ! j - Min (set pv)) * infl) 10) + 1 / 1000000"
  let ?u = "map ?f [0 ..< length pv]"
  let ?S = "sum_list ?u"
  let ?w = "map (\<lambda>w. w / ?S) ?u"
  have eq: "smc_weights pv infl (int (length pv)) = Some ?w"
    by (rule smc_weights_eq[OF assms])
  have fpos: "0 < ?f j" for j by (simp add: add_pos_pos)
  have "?u \<noteq> []" using assms by simp
  moreover have "\<forall>w \<in> set ?u. 0 < w" using fpos by auto
  ultimately have Spos: "0 < ?S" by (rule sum_list_pos_real)
  have pos: "\<forall>i < length pv. 0 < ?w ! i" using fpos Spos by simp
  have "sum_list ?w = ?S / ?S" by (rule sum_list_div)
  then have one: "sum_list ?w = 1" using Spos by simp
  have mx: "\<forall>k < length pv. pv ! k = Min (set pv) \<longrightarrow> (\<forall>i < length pv. ?w ! i \<le> ?w ! k)"
    if infl: "0 \<le> infl"
  proof (intro allI impI)
    fix k i assume k: "k < length pv" and mk: "pv ! k = Min (set pv)" and i: "i < length pv"
    have "Min (set pv) \<le> pv ! i" using i by simp
    then have "0 \<le> pv ! i - Min (set pv)" by simp
    then have "- (pv ! i - Min (set pv)) * infl \<le> 0"
      using infl by (simp add: mult_nonpos_nonneg)
    then have "min (- (pv ! i - Min (set pv)) * infl) 10 \<le> 0" by (simp add: min_le_iff_disj)
    moreover have "min (- (pv ! k - Min (set pv)) * infl) 10 = 0" using mk by simp
    ultimately have "?f i \<le> ?f k" by simp
    then show "?w ! i \<le> ?w ! k" using i k Spos by (simp add: divide_right_mono)
  qed
  show ?thesis
    apply (rule exI[of _ ?w])
    using eq pos one mx by simp
qed

text \<open>
  The theorem at the particle values \<open>[3, 1, 2]\<close> with inflation factor 2: the second
  particle has the largest weight.
\<close>

theorem smc_weights_normalised_witness:
  "\<exists>w. smc_weights [3, 1, 2] 2 3 = Some w \<and> length w = 3
     \<and> (\<forall>i < 3. 0 < w ! i) \<and> sum_list w = 1 \<and> (\<forall>i < 3. w ! i \<le> w ! 1)"
proof -
  have ne: "[3, 1, 2 :: real] \<noteq> []" by simp
  have m: "Min (set [3, 1, 2 :: real]) = 1" by simp
  from smc_weights_normalised[OF ne, of 2] obtain w where
    w: "smc_weights [3, 1, 2] 2 (int (length [3, 1, 2 :: real])) = Some w"
       "length w = length [3, 1, 2 :: real]"
       "\<forall>i < length [3, 1, 2 :: real]. 0 < w ! i" "sum_list w = 1"
       "(0::real) \<le> 2 \<longrightarrow>
          (\<forall>k < length [3, 1, 2 :: real]. [3, 1, 2 :: real] ! k = Min (set [3, 1, 2 :: real])
            \<longrightarrow> (\<forall>i < length [3, 1, 2 :: real]. w ! i \<le> w ! k))"
    by blast
  from w(5) have "\<forall>i < 3. w ! i \<le> w ! 1" unfolding m by (simp add: nth_Cons')
  then show ?thesis using w(1-4) by auto
qed

text \<open>
  Claim C7 as stated fails for a negative inflation factor: with the values \<open>[0, 1]\<close>
  and the factor \<open>-1\<close> the first particle has the minimum value and the smaller
  weight.
\<close>

theorem smc_weights_negative_inflation:
  "the (smc_weights [0, 1] (- 1) 2) ! 0 < the (smc_weights [0, 1] (- 1) 2) ! 1
   \<and> [0, 1 :: real] ! 0 = Min (set [0, 1])"
proof -
  have ne: "[0, 1 :: real] \<noteq> []" by simp
  have m: "Min (set [0, 1 :: real]) = 0" by simp
  have e1: "(1::real) < exp 1" by simp
  have pos: "(0::real) < 1 + 1 / 1000000 + (exp 1 + 1 / 1000000)" by (simp add: add_pos_pos)
  have "smc_weights [0, 1] (- 1) (int (length [0, 1 :: real])) =
     Some [(1 + 1 / 1000000) / (1 + 1 / 1000000 + (exp 1 + 1 / 1000000)),
           (exp 1 + 1 / 1000000) / (1 + 1 / 1000000 + (exp 1 + 1 / 1000000))]"
    unfolding smc_weights_eq[OF ne] m by (simp add: upt_rec)
  then have eq: "smc_weights [0, 1] (- 1) 2 =
     Some [(1 + 1 / 1000000) / (1 + 1 / 1000000 + (exp 1 + 1 / 1000000)),
           (exp 1 + 1 / 1000000) / (1 + 1 / 1000000 + (exp 1 + 1 / 1000000))]" by simp
  have "(1 + 1 / 1000000) / (1 + 1 / 1000000 + (exp 1 + 1 / 1000000))
      < (exp 1 + 1 / 1000000) / (1 + 1 / 1000000 + (exp (1::real) + 1 / 1000000))"
    using e1 pos by (intro divide_strict_right_mono) simp_all
  then show ?thesis unfolding eq using m by simp
qed

section \<open>Properties of the sample counts\<close>








section \<open>Properties of the sensitivity\<close>














text \<open>With inflation factor zero all weights are equal.\<close>

lemma smc_weights_zero_inflation:
  assumes "pv \<noteq> []"
  shows "smc_weights pv 0 (int (length pv)) = Some (replicate (length pv) (1 / real (length pv)))"
proof -
  let ?n = "length pv"
  have u: "map (\<lambda>j. exp (min (- (pv ! j - Min (set pv)) * 0) 10) + 1 / 1000000) [0 ..< ?n]
      = replicate ?n (1 + 1 / 1000000 :: real)"
    by (intro nth_equalityI) simp_all
  have s: "sum_list (replicate ?n (1 + 1 / 1000000 :: real)) = real ?n * (1 + 1 / 1000000)"
    by (simp add: sum_list_replicate)
  have n: "real ?n \<noteq> 0" using assms by simp
  have "map (\<lambda>w. w / (real ?n * (1 + 1 / 1000000))) (replicate ?n (1 + 1 / 1000000 :: real))
      = replicate ?n (1 / real ?n)"
    using n by (simp add: field_simps)
  then show ?thesis unfolding smc_weights_eq[OF assms] u s by simp
qed

lemma w0: "smc_weights [7, 5] 0 2 = Some [1 / 2, 1 / 2]"
  using smc_weights_zero_inflation[of "[7, 5]"] by (simp add: numeral_2_eq_2)

lemma w1: "smc_weights [9, 6] 0 2 = Some [1 / 2, 1 / 2]"
  using smc_weights_zero_inflation[of "[9, 6]"] by (simp add: numeral_2_eq_2)



section \<open>Properties of the first call\<close>




text \<open>The definitions that evaluate a call of \<open>calc_ensemble_weights\<close> on an example.\<close>

lemmas eval_smc = calc_ensemble_weights_def smc_prepare_def gen_state_ensemble_def gen_variable_def
      transpose_sample_def recenter_def np_mean_def as_list_def combine_sens_def zeros_vec_def
      iadd_def broadcast_to_def vadd_def smult_def vdiv_def
      smc_run_def example_env_def example_ensemble_def level_sizes_def upt_rec
      smc_level_def new_samples_def np_round_def getitem_def update_particles_def col_slice_def
      slice_def slice_bound_def matvec_def
      argmin_def col_def draw_resample_index_def Let_def gather_cols_def gather_def
      assign_cols_to_def assign_cols_from_def assign_to_def assign_from_def

lemma w2: "smc_weights [10, 20] 0 2 = Some [1 / 2, 1 / 2]"
  using smc_weights_zero_inflation[of "[10, 20]"] by (simp add: numeral_2_eq_2)


lemma w4: "smc_weights [1] 0 1 = Some [1]"
  using smc_weights_zero_inflation[of "[1]"] by simp

lemma w5: "smc_weights [2] 0 1 = Some [1]"
  using smc_weights_zero_inflation[of "[2]"] by simp


lemma ex_first_call_small:
  "map_option (particles \<circ> snd)
     (calc_ensemble_weights (example_env (\<lambda>X. FList [[1], [2]]) (\<lambda>i. [[10], [20]]))
       [15] 0 [[1]] (9 / 10)
       (example_ensemble [(''x'', Arr1 [0])] 2 (Some \<lparr>en_size = [1, 1], cov_wgt = [1, 1]\<rparr>)))
   = Some [[[10]], [[20]]]"
  by (simp add: eval_smc w4 w5)



section \<open>Properties of the drawn ensemble\<close>

lemma sum_list_shift: "sum_list (map (\<lambda>t. m + t - (a::real)) r) = real (length r) * (m - a) + sum_list r"
  by (induction r) (simp_all add: algebra_simps)

text \<open>A recentred row has the mean it was moved to.\<close>

lemma np_mean_recentered:
  assumes "r \<noteq> []"
  shows "np_mean (map (\<lambda>t. m + t - np_mean r) r) = m"
proof -
  have n: "real (length r) \<noteq> 0" using assms by simp
  have "sum_list (map (\<lambda>t. m + t - np_mean r) r) = real (length r) * m"
    unfolding sum_list_shift using n by (simp add: np_mean_def algebra_simps)
  then show ?thesis using n by (simp add: np_mean_def)
qed

lemma gen_variable_mean:
  assumes "gen_variable env e cov_blocks i a = Some M" and "0 < ne e"
  shows "\<exists>mean S. a = Arr1 mean \<and> length S = length mean
     \<and> (\<forall>j < length mean. length (S ! j) = nat (ne e) \<and> np_mean (S ! j) = mean ! j)
     \<and> M = (case clip_bounds e i of None \<Rightarrow> S | Some (lo, hi) \<Rightarrow> clip_mat S lo hi)"
proof -
  from assms(1) obtain mean where a: "a = Arr1 mean"
    by (cases a) (auto simp: gen_variable_def)
  from assms(1) obtain cov_i where c: "getitem cov_blocks i = Some cov_i"
    unfolding a by (auto simp: gen_variable_def split: option.splits)
  let ?sample = "multivariate_normal env i mean cov_i (ne e)"
  let ?S = "recenter mean (transpose_sample (length mean) ?sample)"
  from assms(1) have shape: "length ?sample = nat (ne e)"
    unfolding a gen_variable_def c by (auto simp: Let_def split: if_splits)
  from assms(1) have M: "M = (case clip_bounds e i of None \<Rightarrow> ?S | Some (lo, hi) \<Rightarrow> clip_mat ?S lo hi)"
    unfolding a gen_variable_def c clip_bounds_def
    by (auto simp: Let_def getitem_def split: if_splits option.splits)
  have len: "length ?S = length mean" by (simp add: recenter_def transpose_sample_def)
  have rows: "length (?S ! j) = nat (ne e) \<and> np_mean (?S ! j) = mean ! j" if j: "j < length mean" for j
  proof -
    let ?r = "map (\<lambda>r. r ! j) ?sample"
    have r: "?r \<noteq> []" using shape assms(2) by auto
    have "?S ! j = map (\<lambda>t. mean ! j + t - np_mean ?r) ?r"
      using j by (simp add: recenter_def transpose_sample_def)
    then show ?thesis using np_mean_recentered[OF r] shape by simp
  qed
  show ?thesis using a len rows M by blast
qed

lemma gen_variables_nth:
  assumes "gen_variables env e cb i0 st = Some out"
  shows "length out = length st
     \<and> (\<forall>k < length st. \<exists>M. gen_variable env e cb (i0 + k) (snd (st ! k)) = Some M
            \<and> out ! k = (fst (st ! k), Arr2 M))"
  using assms
proof (induction st arbitrary: i0 out)
  case Nil
  then show ?case by simp
next
  case (Cons p rest)
  obtain statename a where p: "p = (statename, a)" by (cases p)
  from Cons.prems obtain M rest' where
    g: "gen_variable env e cb i0 a = Some M"
    and r: "gen_variables env e cb (Suc i0) rest = Some rest'"
    and out: "out = (statename, Arr2 M) # rest'"
    unfolding p by (auto split: option.splits)
  from Cons.IH[OF r] have ih: "length rest' = length rest"
    "\<forall>k < length rest. \<exists>M. gen_variable env e cb (Suc i0 + k) (snd (rest ! k)) = Some M
            \<and> rest' ! k = (fst (rest ! k), Arr2 M)" by auto
  have "\<exists>M. gen_variable env e cb (i0 + k) (snd ((p # rest) ! k)) = Some M
            \<and> out ! k = (fst ((p # rest) ! k), Arr2 M)" if "k < length (p # rest)" for k
  proof (cases k)
    case 0
    then show ?thesis using g out p by simp
  next
    case (Suc k')
    then show ?thesis using ih(2) that out by simp
  qed
  then show ?case using ih(1) out by simp
qed

text \<open>
  Claim C4, as the code has it. For an ensemble of at least one member, every variable
  of the dictionary that \<open>_gen_state_ensemble\<close> returns is the recentred sample
  \<open>S\<close>, whose rows have exactly the mean of the variable, clipped entry by entry to
  the interval of the variable when both lists of bounds are present; without bounds
  nothing is clipped. So the mean of the returned ensemble is the input mean when
  there are no bounds or no entry of \<open>S\<close> lies outside the interval. (When an entry
  is clipped the mean moves, see the counterexample.)
\<close>

theorem gen_state_ensemble_mean:
  assumes "gen_state_ensemble env e = Some state_en" and "0 < ne e"
  shows "length state_en = length (state e)
     \<and> (\<forall>i < length (state e). \<exists>mean S M.
            snd (state e ! i) = Arr1 mean \<and> state_en ! i = (fst (state e ! i), Arr2 M)
          \<and> length S = length mean
          \<and> (\<forall>j < length mean. length (S ! j) = nat (ne e) \<and> np_mean (S ! j) = mean ! j)
          \<and> M = (case clip_bounds e i of None \<Rightarrow> S | Some (lo, hi) \<Rightarrow> clip_mat S lo hi)
          \<and> ((case clip_bounds e i of None \<Rightarrow> True
               | Some (lo, hi) \<Rightarrow> \<forall>row \<in> set S. \<forall>t \<in> set row. lo \<le> t \<and> t \<le> hi)
              \<longrightarrow> (\<forall>j < length mean. length (M ! j) = nat (ne e) \<and> np_mean (M ! j) = mean ! j)))"
proof -
  from assms(1) have g: "gen_variables env e (corr2BlockDiagonal env (state e) (gaussian_ensemble.cov e)) 0 (state e) = Some state_en"
    by (simp add: gen_state_ensemble_def)
  from gen_variables_nth[OF g] have len: "length state_en = length (state e)"
    and nth: "\<forall>k < length (state e). \<exists>M. gen_variable env e (corr2BlockDiagonal env (state e) (gaussian_ensemble.cov e)) k (snd (state e ! k)) = Some M
            \<and> state_en ! k = (fst (state e ! k), Arr2 M)" by auto
  have "\<exists>mean S M.
            snd (state e ! i) = Arr1 mean \<and> state_en ! i = (fst (state e ! i), Arr2 M)
          \<and> length S = length mean
          \<and> (\<forall>j < length mean. length (S ! j) = nat (ne e) \<and> np_mean (S ! j) = mean ! j)
          \<and> M = (case clip_bounds e i of None \<Rightarrow> S | Some (lo, hi) \<Rightarrow> clip_mat S lo hi)
          \<and> ((case clip_bounds e i of None \<Rightarrow> True
               | Some (lo, hi) \<Rightarrow> \<forall>row \<in> set S. \<forall>t \<in> set row. lo \<le> t \<and> t \<le> hi)
              \<longrightarrow> (\<forall>j < length mean. length (M ! j) = nat (ne e) \<and> np_mean (M ! j) = mean ! j))"
    if i: "i < length (state e)" for i
  proof -
    from nth i obtain M where
      gv: "gen_variable env e (corr2BlockDiagonal env (state e) (gaussian_ensemble.cov e)) i (snd (state e ! i)) = Some M"
      and o: "state_en ! i = (fst (state e ! i), Arr2 M)" by blast
    from gen_variable_mean[OF gv assms(2)] obtain mean S where
      m: "snd (state e ! i) = Arr1 mean" "length S = length mean"
         "\<forall>j < length mean. length (S ! j) = nat (ne e) \<and> np_mean (S ! j) = mean ! j"
         "M = (case clip_bounds e i of None \<Rightarrow> S | Some (lo, hi) \<Rightarrow> clip_mat S lo hi)"
      by blast
    have same: "M = S"
      if "case clip_bounds e i of None \<Rightarrow> True
               | Some (lo, hi) \<Rightarrow> \<forall>row \<in> set S. \<forall>t \<in> set row. lo \<le> t \<and> t \<le> hi"
    proof (cases "clip_bounds e i")
      case None
      then show ?thesis using m(4) by simp
    next
      case (Some b)
      obtain lo hi where b: "b = (lo, hi)" by (cases b)
      from that Some b have inside: "\<forall>row \<in> set S. \<forall>t \<in> set row. lo \<le> t \<and> t \<le> hi" by simp
      have "clip_mat S lo hi = S"
        unfolding clip_mat_def
        by (rule map_idI, rule map_idI) (use inside in \<open>auto simp: np_clip_def\<close>)
      then show ?thesis using m(4) Some b by simp
    qed
    have fin: "(case clip_bounds e i of None \<Rightarrow> True
               | Some (lo, hi) \<Rightarrow> \<forall>row \<in> set S. \<forall>t \<in> set row. lo \<le> t \<and> t \<le> hi)
              \<longrightarrow> (\<forall>j < length mean. length (M ! j) = nat (ne e) \<and> np_mean (M ! j) = mean ! j)"
    proof
      assume "case clip_bounds e i of None \<Rightarrow> True
               | Some (lo, hi) \<Rightarrow> \<forall>row \<in> set S. \<forall>t \<in> set row. lo \<le> t \<and> t \<le> hi"
      then have "M = S" by (rule same)
      then show "\<forall>j < length mean. length (M ! j) = nat (ne e) \<and> np_mean (M ! j) = mean ! j"
        using m(3) by simp
    qed
    show ?thesis
      by (rule exI[of _ mean], rule exI[of _ S], rule exI[of _ M]) (intro conjI m o fin)
  qed
  then show ?thesis using len by (intro conjI allI impI) auto
qed

text \<open>Three members around the mean one half, without bounds.\<close>

lemma ex_gen_unbounded:
  "gen_state_ensemble (example_env (\<lambda>X. FArr []) (\<lambda>i. [[0], [0], [3]]))
     (example_ensemble [(''x'', Arr1 [1 / 2])] 3 None)
   = Some [(''x'', Arr2 [[- 1 / 2, - 1 / 2, 5 / 2]])]"
  by (simp add: gen_state_ensemble_def gen_variable_def example_env_def example_ensemble_def
      getitem_def transpose_sample_def recenter_def np_mean_def upt_rec Let_def)

text \<open>The theorem at that example: the mean of the ensemble is one half.\<close>

theorem gen_state_ensemble_mean_witness:
  "\<exists>state_en M.
     gen_state_ensemble (example_env (\<lambda>X. FArr []) (\<lambda>i. [[0], [0], [3]]))
       (example_ensemble [(''x'', Arr1 [1 / 2])] 3 None) = Some state_en
   \<and> state_en ! 0 = (''x'', Arr2 M) \<and> length (M ! 0) = 3 \<and> np_mean (M ! 0) = 1 / 2"
proof -
  let ?env = "example_env (\<lambda>X. FArr []) (\<lambda>i. [[0], [0], [3]])"
  let ?e = "example_ensemble [(''x'', Arr1 [1 / 2])] 3 None"
  have ne: "0 < ne ?e" by (simp add: example_ensemble_def)
  have st: "state ?e = [(''x'', Arr1 [1 / 2])]" by (simp add: example_ensemble_def)
  have cb: "clip_bounds ?e 0 = None" by (simp add: clip_bounds_def example_ensemble_def)
  have n: "nat (ne ?e) = 3" by (simp add: example_ensemble_def)
  have len0: "0 < length (state ?e)" by (simp add: st)
  from gen_state_ensemble_mean[OF ex_gen_unbounded ne, THEN conjunct2, rule_format, OF len0]
  obtain mean S M where
    m: "snd (state ?e ! 0) = Arr1 mean"
       "[(''x'', Arr2 [[- 1 / 2, - 1 / 2, 5 / 2]])] ! 0 = (fst (state ?e ! 0), Arr2 M)"
       "(case clip_bounds ?e 0 of None \<Rightarrow> True
               | Some (lo, hi) \<Rightarrow> \<forall>row \<in> set S. \<forall>t \<in> set row. lo \<le> t \<and> t \<le> hi)
              \<longrightarrow> (\<forall>j < length mean. length (M ! j) = nat (ne ?e) \<and> np_mean (M ! j) = mean ! j)"
    by (elim exE conjE)
  from m(1) have mean: "mean = [1 / 2]" unfolding st by simp
  from m(3) have "length (M ! 0) = 3 \<and> np_mean (M ! 0) = 1 / 2" unfolding cb mean n by simp
  moreover from m(2) have "[(''x'', Arr2 [[- 1 / 2, - 1 / 2, 5 / 2]])] ! 0 = (''x'', Arr2 M)"
    unfolding st by simp
  ultimately show ?thesis using ex_gen_unbounded by blast
qed

text \<open>
  Claim C4 as stated fails under clipping: the same sample with the bounds of the
  transformed space is clipped to \<open>[0, 0, 1]\<close>, whose mean is one third, not the
  input mean one half.
\<close>

theorem gen_state_ensemble_clipped_mean:
  "gen_state_ensemble (example_env (\<lambda>X. FArr []) (\<lambda>i. [[0], [0], [3]]))
     ((example_ensemble [(''x'', Arr1 [1 / 2])] 3 None)\<lparr>lb := [0], ub := [1]\<rparr>)
   = Some [(''x'', Arr2 [[0, 0, 1]])]
   \<and> np_mean [0, 0, 1] = 1 / 3
   \<and> state ((example_ensemble [(''x'', Arr1 [1 / 2])] 3 None)\<lparr>lb := [0], ub := [1]\<rparr>)
      = [(''x'', Arr1 [1 / 2])]
   \<and> ne ((example_ensemble [(''x'', Arr1 [1 / 2])] 3 None)\<lparr>lb := [0], ub := [1]\<rparr>) = 3"
  by (simp add: gen_state_ensemble_def gen_variable_def example_env_def example_ensemble_def
      getitem_def transpose_sample_def recenter_def np_mean_def upt_rec Let_def clip_mat_def
      np_clip_def)

section \<open>Properties of the gradient\<close>




















end
